theory Spec2Isabelle
  imports Complex_Main
begin

section \<open>Value types\<close>

text \<open>
  The example (\<^verbatim>\<open>MvvmExample.cpp\<close>) only stores, copies and forwards its \<^verbatim>\<open>double\<close>
  values and performs no arithmetic on them. The literals \<^verbatim>\<open>100.\<close>, \<^verbatim>\<open>30.\<close> and
  \<^verbatim>\<open>10'000.\<close> are exact; the slider interval \<^verbatim>\<open>0.1\<close> is stored and never read. A
  \<^verbatim>\<open>double\<close> is therefore read as a real number. A member \<^verbatim>\<open>name_\<close> of class
  \<^verbatim>\<open>C\<close> is the record field \<open>C_name\<close>.
\<close>

type_synonym double = real

text \<open>
  Modelled from the spec: \<^verbatim>\<open>dsp/MagnitudeResponse.hpp\<close> does not exist; the class is
  ``a container for frequencies and corresponding gains''. A default-constructed
  response holds no data points.
\<close>

type_synonym MagnitudeResponse = "(double \<times> double) list"

definition MagnitudeResponse_default :: MagnitudeResponse where
  "MagnitudeResponse_default = []"

text \<open>
  Modelled from the spec: \<^verbatim>\<open>juce::Path\<close> and \<^verbatim>\<open>juce::Rectangle<int>\<close> belong to the
  GUI toolkit. The code default-constructs paths and compares them for equality, and
  builds a rectangle from \<^verbatim>\<open>{x, y, width, height}\<close>; nothing else is used. A path is
  the sequence of its points, the default path the empty one, the default rectangle the
  one with all four members zero.
\<close>

type_synonym Path = "(double \<times> double) list"

definition Path_default :: Path where
  "Path_default = []"

record Rectangle =
  rect_x :: int
  rect_y :: int
  rect_w :: int
  rect_h :: int

definition Rectangle_default :: Rectangle where
  "Rectangle_default = \<lparr>rect_x = 0, rect_y = 0, rect_w = 0, rect_h = 0\<rparr>"


section \<open>The observable property\<close>

text \<open>
  Modelled from the spec: the observable-property library
  (\<^verbatim>\<open>ObservableProperty.hpp\<close>, \<^verbatim>\<open>LiveObservableProperty.hpp\<close>) is a dependency whose
  source is absent. The spec gives its contract: an observable property is ``a
  container holding a value of type T and a list of subscribed observers'';
  \<^verbatim>\<open>value()\<close> returns the current value; \<^verbatim>\<open>setValueForced(T)\<close> ``sets value and
  unconditionally notifies all subscribers''; \<^verbatim>\<open>observe(callback)\<close> ``registers a
  callback invoked with the new value on every change, returning a scope-bound
  subscription token'' ``whose destruction unsubscribes''. All notifications are
  synchronous, on one thread.

  An observer is a C++ closure that mutates the objects it captured. Here it is a
  function from the new value to a transformer of the state \<open>'w\<close> of those objects;
  \<open>setValueForced\<close> takes that state and returns it updated. A subscription token is
  the number the property gave to the subscription; the property it belongs to is
  passed to its destructor explicitly.
\<close>

datatype ScopedConnection = ScopedConnection nat

record ('a, 'w) ObservableProperty =
  currentValue :: 'a
  observers :: "(ScopedConnection \<times> ('a \<Rightarrow> 'w \<Rightarrow> 'w)) list"
  nextConnection :: nat

definition ObservableProperty_ctor :: "'a \<Rightarrow> ('a, 'w) ObservableProperty" where
  "ObservableProperty_ctor v = \<lparr>currentValue = v, observers = [], nextConnection = 0\<rparr>"

definition ObservableProperty_value :: "('a, 'w) ObservableProperty \<Rightarrow> 'a" where
  "ObservableProperty_value p = currentValue p"

definition observe ::
  "('a \<Rightarrow> 'w \<Rightarrow> 'w) \<Rightarrow> ('a, 'w) ObservableProperty
     \<Rightarrow> ScopedConnection \<times> ('a, 'w) ObservableProperty" where
  "observe callback p =
     (ScopedConnection (nextConnection p),
      p\<lparr>observers := observers p @ [(ScopedConnection (nextConnection p), callback)],
        nextConnection := Suc (nextConnection p)\<rparr>)"

definition notifyObservers :: "('a, 'w) ObservableProperty \<Rightarrow> 'w \<Rightarrow> 'w" where
  "notifyObservers p w = fold (\<lambda>(c, callback). callback (currentValue p)) (observers p) w"

definition setValueForced ::
  "'a \<Rightarrow> ('a, 'w) ObservableProperty \<Rightarrow> 'w \<Rightarrow> ('a, 'w) ObservableProperty \<times> 'w" where
  "setValueForced v p w = (let p' = p\<lparr>currentValue := v\<rparr> in (p', notifyObservers p' w))"

definition ScopedConnection_dtor ::
  "ScopedConnection \<Rightarrow> ('a, 'w) ObservableProperty \<Rightarrow> ('a, 'w) ObservableProperty" where
  "ScopedConnection_dtor c p = p\<lparr>observers := filter (\<lambda>(c', callback). c' \<noteq> c) (observers p)\<rparr>"

text \<open>A run of changes of one property, each a forced set.\<close>

fun setValuesForced ::
  "'a list \<Rightarrow> ('a, 'w) ObservableProperty \<Rightarrow> 'w \<Rightarrow> ('a, 'w) ObservableProperty \<times> 'w" where
  "setValuesForced [] p w = (p, w)"
| "setValuesForced (v # vs) p w =
     (case setValueForced v p w of (p', w') \<Rightarrow> setValuesForced vs p' w')"

text \<open>
  The tokens of a property's subscriptions are below its counter, so the next token it
  hands out is new.
\<close>

primrec connectionNumber :: "ScopedConnection \<Rightarrow> nat" where
  "connectionNumber (ScopedConnection i) = i"

definition connectionsFresh :: "('a, 'w) ObservableProperty \<Rightarrow> bool" where
  "connectionsFresh p =
     list_all (\<lambda>c. connectionNumber c < nextConnection p) (map fst (observers p))"


section \<open>EqFilterViewModel\<close>

text \<open>
  \<^verbatim>\<open>LIVE_OBSERVABLE_PROPERTY(frequencySliderValue, double)\<close> declares the member
  \<^verbatim>\<open>frequencySliderValue_\<close> and its accessor \<^verbatim>\<open>frequencySliderValue()\<close>. The injected
  \<^verbatim>\<open>std::function<void(double)>\<close> acts on state \<open>'e\<close> outside the view-model; the
  observers of the slider value act on the state \<open>'s\<close> of the view.
\<close>

record ('s, 'e) EqFilterViewModel =
  EqFilterViewModel_frequencySliderValue :: "(double, 's) ObservableProperty"
  EqFilterViewModel_cutoffFrequencyChanged :: "double \<Rightarrow> 'e \<Rightarrow> 'e"

definition EqFilterViewModel_ctor :: "(double \<Rightarrow> 'e \<Rightarrow> 'e) \<Rightarrow> ('s, 'e) EqFilterViewModel" where
  "EqFilterViewModel_ctor onCutoffFrequencyChanged =
     \<lparr>EqFilterViewModel_frequencySliderValue = ObservableProperty_ctor 100,
      EqFilterViewModel_cutoffFrequencyChanged = onCutoffFrequencyChanged\<rparr>"

definition frequencySliderValue ::
  "('s, 'e) EqFilterViewModel \<Rightarrow> (double, 's) ObservableProperty" where
  "frequencySliderValue vm = EqFilterViewModel_frequencySliderValue vm"

definition EqFilterViewModel_onCutoffFrequencyChanged ::
  "double \<Rightarrow> ('s, 'e) EqFilterViewModel \<Rightarrow> 'e \<Rightarrow> ('s, 'e) EqFilterViewModel \<times> 'e" where
  "EqFilterViewModel_onCutoffFrequencyChanged newValue vm e =
     (vm, EqFilterViewModel_cutoffFrequencyChanged vm newValue e)"

section \<open>EqFilter\<close>

text \<open>
  \<^verbatim>\<open>OBSERVABLE_PROPERTY(magnitudeResponse, dsp::MagnitudeResponse)\<close> declares the
  member \<^verbatim>\<open>magnitudeResponse_\<close>, default-constructed, and its accessor. The observers
  of the response act on the state \<open>'w\<close> downstream of the model. The body of
  \<^verbatim>\<open>calculateMagnitudeResponse\<close> is the stub of the source: it returns the
  default-constructed \<^verbatim>\<open>result\<close>.
\<close>

record 'w EqFilter =
  EqFilter_magnitudeResponse :: "(MagnitudeResponse, 'w) ObservableProperty"
  EqFilter_cutoffFrequency :: double

definition EqFilter_ctor :: "'w EqFilter" where
  "EqFilter_ctor =
     \<lparr>EqFilter_magnitudeResponse = ObservableProperty_ctor MagnitudeResponse_default,
      EqFilter_cutoffFrequency = 100\<rparr>"

definition magnitudeResponse :: "'w EqFilter \<Rightarrow> (MagnitudeResponse, 'w) ObservableProperty" where
  "magnitudeResponse eqFilter = EqFilter_magnitudeResponse eqFilter"

definition calculateMagnitudeResponse :: "'w EqFilter \<Rightarrow> MagnitudeResponse" where
  "calculateMagnitudeResponse eqFilter = (let result = MagnitudeResponse_default in result)"

definition EqFilter_onCutoffFrequencyChanged ::
  "double \<Rightarrow> 'w EqFilter \<Rightarrow> 'w \<Rightarrow> 'w EqFilter \<times> 'w" where
  "EqFilter_onCutoffFrequencyChanged newCutoffFrequency eqFilter w =
     (let eqFilter1 = eqFilter\<lparr>EqFilter_cutoffFrequency := newCutoffFrequency\<rparr> in
      case setValueForced (calculateMagnitudeResponse eqFilter1)
             (EqFilter_magnitudeResponse eqFilter1) w of
        (p, w') \<Rightarrow> (eqFilter1\<lparr>EqFilter_magnitudeResponse := p\<rparr>, w'))"


section \<open>MagnitudeResponsePlotViewModel\<close>

text \<open>
  \<^verbatim>\<open>LIVE_OBSERVABLE_PROPERTY(plot, juce::Path)\<close> declares the member \<^verbatim>\<open>plot_\<close>,
  default-constructed, and its accessor \<^verbatim>\<open>plot()\<close>. The observers of the plot act on
  the state \<open>'v\<close> of the view. \<^verbatim>\<open>calculateMagnitudeResponsePlot\<close> is the stub of the
  source.
\<close>

record 'v MagnitudeResponsePlotViewModel =
  MagnitudeResponsePlotViewModel_plot :: "(Path, 'v) ObservableProperty"
  MagnitudeResponsePlotViewModel_plotBounds :: Rectangle
  MagnitudeResponsePlotViewModel_magnitudeResponse :: MagnitudeResponse
  MagnitudeResponsePlotViewModel_connections :: "ScopedConnection list"

definition plot :: "'v MagnitudeResponsePlotViewModel \<Rightarrow> (Path, 'v) ObservableProperty" where
  "plot vm = MagnitudeResponsePlotViewModel_plot vm"

definition calculateMagnitudeResponsePlot :: "'v MagnitudeResponsePlotViewModel \<Rightarrow> Path" where
  "calculateMagnitudeResponsePlot vm = (let result = Path_default in result)"

definition updatePlot ::
  "'v MagnitudeResponsePlotViewModel \<Rightarrow> 'v \<Rightarrow> 'v MagnitudeResponsePlotViewModel \<times> 'v" where
  "updatePlot vm view =
     (case setValueForced (calculateMagnitudeResponsePlot vm)
             (MagnitudeResponsePlotViewModel_plot vm) view of
        (p, view') \<Rightarrow> (vm\<lparr>MagnitudeResponsePlotViewModel_plot := p\<rparr>, view'))"

definition onPlotBoundsChanged ::
  "Rectangle \<Rightarrow> 'v MagnitudeResponsePlotViewModel \<Rightarrow> 'v
     \<Rightarrow> 'v MagnitudeResponsePlotViewModel \<times> 'v" where
  "onPlotBoundsChanged newBounds vm view =
     updatePlot (vm\<lparr>MagnitudeResponsePlotViewModel_plotBounds := newBounds\<rparr>) view"

text \<open>
  The closure the constructor subscribes, \<^verbatim>\<open>[this](const auto& newResponse) {...}\<close>:
  it acts on the view-model it captured and, through \<^verbatim>\<open>updatePlot\<close>, on the view.
\<close>

definition MagnitudeResponsePlotViewModel_observer ::
  "MagnitudeResponse \<Rightarrow> 'v MagnitudeResponsePlotViewModel \<times> 'v
     \<Rightarrow> 'v MagnitudeResponsePlotViewModel \<times> 'v" where
  "MagnitudeResponsePlotViewModel_observer newResponse world =
     (case world of (vm, view) \<Rightarrow>
        updatePlot (vm\<lparr>MagnitudeResponsePlotViewModel_magnitudeResponse := newResponse\<rparr>) view)"

text \<open>
  The constructor takes the source observable by reference and subscribes to it: the
  model returns the source with the new subscription next to the view-model.
\<close>

definition MagnitudeResponsePlotViewModel_ctor ::
  "(MagnitudeResponse, 'v MagnitudeResponsePlotViewModel \<times> 'v) ObservableProperty
     \<Rightarrow> 'v MagnitudeResponsePlotViewModel
        \<times> (MagnitudeResponse, 'v MagnitudeResponsePlotViewModel \<times> 'v) ObservableProperty" where
  "MagnitudeResponsePlotViewModel_ctor source =
     (let vm = \<lparr>MagnitudeResponsePlotViewModel_plot = ObservableProperty_ctor Path_default,
                 MagnitudeResponsePlotViewModel_plotBounds = Rectangle_default,
                 MagnitudeResponsePlotViewModel_magnitudeResponse = ObservableProperty_value source,
                 MagnitudeResponsePlotViewModel_connections = []\<rparr> in
      case observe MagnitudeResponsePlotViewModel_observer source of
        (c, source') \<Rightarrow>
          (vm\<lparr>MagnitudeResponsePlotViewModel_connections :=
                 MagnitudeResponsePlotViewModel_connections vm @ [c]\<rparr>, source'))"


text \<open>
  The spec's reading of the plot: a function of a magnitude response and plot bounds
  alone, obtained by running the source's computation on a view-model that holds
  nothing else.
\<close>

definition plotOf :: "MagnitudeResponse \<Rightarrow> Rectangle \<Rightarrow> Path" where
  "plotOf response bounds =
     calculateMagnitudeResponsePlot
       (\<lparr>MagnitudeResponsePlotViewModel_plot = ObservableProperty_ctor Path_default,
         MagnitudeResponsePlotViewModel_plotBounds = bounds,
         MagnitudeResponsePlotViewModel_magnitudeResponse = response,
         MagnitudeResponsePlotViewModel_connections = []\<rparr>
        :: unit MagnitudeResponsePlotViewModel)"


section \<open>PlotComponent\<close>

text \<open>
  Modelled from the spec: \<^verbatim>\<open>juce::Component\<close> is the toolkit's ``generic
  drawable/resizable container with paint and resize hooks''. Of the base class the
  code uses \<^verbatim>\<open>repaint()\<close>, a repaint request, and \<^verbatim>\<open>getLocalBounds()\<close>. The model
  counts the repaint requests.
\<close>

record Component =
  Component_repaintRequests :: nat
  Component_localBounds :: Rectangle

definition Component_ctor :: Component where
  "Component_ctor = \<lparr>Component_repaintRequests = 0, Component_localBounds = Rectangle_default\<rparr>"

definition repaint :: "Component \<Rightarrow> Component" where
  "repaint c = c\<lparr>Component_repaintRequests := Suc (Component_repaintRequests c)\<rparr>"

definition getLocalBounds :: "Component \<Rightarrow> Rectangle" where
  "getLocalBounds c = Component_localBounds c"

text \<open>
  The view owns its view-model. What an observer of the model's magnitude response can
  reach is the view-model together with the component it repaints.
\<close>

record PlotComponent =
  PlotComponent_plotViewModel :: "Component MagnitudeResponsePlotViewModel"
  PlotComponent_connections :: "ScopedConnection list"
  PlotComponent_base :: Component

type_synonym PlotWorld = "Component MagnitudeResponsePlotViewModel \<times> Component"

text \<open>The closure \<^verbatim>\<open>[this](const juce::Path&) { repaint(); }\<close>.\<close>

definition PlotComponent_observer :: "Path \<Rightarrow> Component \<Rightarrow> Component" where
  "PlotComponent_observer newPlot c = repaint c"

definition PlotComponent_ctor :: "Component MagnitudeResponsePlotViewModel \<Rightarrow> PlotComponent" where
  "PlotComponent_ctor plotViewModel =
     (case observe PlotComponent_observer (plot plotViewModel) of
        (c, p) \<Rightarrow>
          \<lparr>PlotComponent_plotViewModel =
             plotViewModel\<lparr>MagnitudeResponsePlotViewModel_plot := p\<rparr>,
           PlotComponent_connections = [] @ [c],
           PlotComponent_base = Component_ctor\<rparr>)"

definition PlotComponent_resized :: "PlotComponent \<Rightarrow> PlotComponent" where
  "PlotComponent_resized pc =
     (case onPlotBoundsChanged (getLocalBounds (PlotComponent_base pc))
             (PlotComponent_plotViewModel pc) (PlotComponent_base pc) of
        (vm, base) \<Rightarrow> pc\<lparr>PlotComponent_plotViewModel := vm, PlotComponent_base := base\<rparr>)"

definition PlotComponent_world :: "PlotComponent \<Rightarrow> PlotWorld" where
  "PlotComponent_world pc = (PlotComponent_plotViewModel pc, PlotComponent_base pc)"

text \<open>A run of cutoff changes of the model, each one call of onCutoffFrequencyChanged.\<close>

fun onCutoffFrequencyChanges ::
  "double list \<Rightarrow> 'w EqFilter \<Rightarrow> 'w \<Rightarrow> 'w EqFilter \<times> 'w" where
  "onCutoffFrequencyChanges [] eqFilter w = (eqFilter, w)"
| "onCutoffFrequencyChanges (f # fs) eqFilter w =
     (case EqFilter_onCutoffFrequencyChanged f eqFilter w of
        (eqFilter', w') \<Rightarrow> onCutoffFrequencyChanges fs eqFilter' w')"


section \<open>EqFilterComponent\<close>

text \<open>
  Modelled from the spec: \<^verbatim>\<open>juce::Slider\<close> is the toolkit's ``numeric slider widget
  (range, step, value, value-change callback, programmatic set without triggering
  callback)''. A set that changes the value marks a change message pending unless it is
  made with \<^verbatim>\<open>dontSendNotification\<close>; delivering the pending message calls
  \<^verbatim>\<open>onValueChange\<close> when one is assigned. The slider is generic in what it holds as
  \<^verbatim>\<open>onValueChange\<close>; a default-constructed slider holds none. The toolkit's snapping
  of a value to the range and the interval is left out: it is arithmetic on
  \<^verbatim>\<open>double\<close>, and the code never reads a value back that it did not set.
\<close>

datatype NotificationType =
  dontSendNotification | sendNotification | sendNotificationSync | sendNotificationAsync

datatype SliderStyle = LinearHorizontal | IncDecButtons

record 'h Slider =
  Slider_style :: SliderStyle
  Slider_range :: "double \<times> double"
  Slider_interval :: double
  Slider_value :: double
  Slider_onValueChange :: "'h option"
  Slider_changePending :: bool
  Slider_visible :: bool

definition Slider_ctor :: "'h Slider" where
  "Slider_ctor =
     \<lparr>Slider_style = LinearHorizontal, Slider_range = (0, 10), Slider_interval = 0,
      Slider_value = 0, Slider_onValueChange = None, Slider_changePending = False,
      Slider_visible = False\<rparr>"

definition setSliderStyle :: "SliderStyle \<Rightarrow> 'h Slider \<Rightarrow> 'h Slider" where
  "setSliderStyle newStyle s = s\<lparr>Slider_style := newStyle\<rparr>"

definition setRange :: "double \<times> double \<Rightarrow> double \<Rightarrow> 'h Slider \<Rightarrow> 'h Slider" where
  "setRange newRange newInterval s = s\<lparr>Slider_range := newRange, Slider_interval := newInterval\<rparr>"

definition getValue :: "'h Slider \<Rightarrow> double" where
  "getValue s = Slider_value s"

definition setValue :: "double \<Rightarrow> NotificationType \<Rightarrow> 'h Slider \<Rightarrow> 'h Slider" where
  "setValue newValue notification s =
     (if newValue = Slider_value s then s
      else s\<lparr>Slider_value := newValue,
             Slider_changePending :=
               (if notification = dontSendNotification then Slider_changePending s else True)\<rparr>)"

definition addAndMakeVisible :: "'h Slider \<Rightarrow> 'h Slider" where
  "addAndMakeVisible s = s\<lparr>Slider_visible := True\<rparr>"

text \<open>
  The component owns its view-model and its slider. The one closure it assigns to
  \<^verbatim>\<open>onValueChange\<close> captures \<^verbatim>\<open>this\<close>; the slider holds its name, and
  \<open>EqFilterComponent_onValueChange\<close> is its body.
\<close>

datatype EqFilterComponentClosure = ForwardValueToViewModel

record 'e EqFilterComponent =
  EqFilterComponent_viewModel :: "(EqFilterComponentClosure Slider, 'e) EqFilterViewModel"
  EqFilterComponent_connections :: "ScopedConnection list"
  EqFilterComponent_frequencySlider :: "EqFilterComponentClosure Slider"

definition EqFilterComponent_onValueChange ::
  "'e EqFilterComponent \<Rightarrow> 'e \<Rightarrow> 'e EqFilterComponent \<times> 'e" where
  "EqFilterComponent_onValueChange self e =
     (case EqFilterViewModel_onCutoffFrequencyChanged
             (getValue (EqFilterComponent_frequencySlider self))
             (EqFilterComponent_viewModel self) e of
        (vm, e') \<Rightarrow> (self\<lparr>EqFilterComponent_viewModel := vm\<rparr>, e'))"

text \<open>The toolkit delivers a pending change message of the component's slider.\<close>

definition EqFilterComponent_deliver ::
  "'e EqFilterComponent \<Rightarrow> 'e \<Rightarrow> 'e EqFilterComponent \<times> 'e" where
  "EqFilterComponent_deliver self e =
     (if Slider_changePending (EqFilterComponent_frequencySlider self) then
        (let self' = self\<lparr>EqFilterComponent_frequencySlider :=
                       (EqFilterComponent_frequencySlider self)\<lparr>Slider_changePending := False\<rparr>\<rparr> in
         case Slider_onValueChange (EqFilterComponent_frequencySlider self') of
           None \<Rightarrow> (self', e)
         | Some ForwardValueToViewModel \<Rightarrow> EqFilterComponent_onValueChange self' e)
      else (self, e))"

text \<open>
  The closure \<^verbatim>\<open>[this](double newValue) {...}\<close> the constructor subscribes to the
  slider value: it acts on the slider of the component it captured.
\<close>

definition EqFilterComponent_observer ::
  "double \<Rightarrow> EqFilterComponentClosure Slider \<Rightarrow> EqFilterComponentClosure Slider" where
  "EqFilterComponent_observer newValue s = setValue newValue dontSendNotification s"

definition EqFilterComponent_ctor ::
  "(EqFilterComponentClosure Slider, 'e) EqFilterViewModel \<Rightarrow> 'e
     \<Rightarrow> 'e EqFilterComponent \<times> 'e" where
  "EqFilterComponent_ctor viewModel e =
     (let comp0 = \<lparr>EqFilterComponent_viewModel = viewModel,
                    EqFilterComponent_connections = [],
                    EqFilterComponent_frequencySlider = Slider_ctor\<rparr>;
          comp1 = comp0\<lparr>EqFilterComponent_frequencySlider :=
                    setSliderStyle IncDecButtons (EqFilterComponent_frequencySlider comp0)\<rparr>;
          comp2 = comp1\<lparr>EqFilterComponent_frequencySlider :=
                    setRange (30, 10000) 0.1 (EqFilterComponent_frequencySlider comp1)\<rparr>
      in
      case EqFilterComponent_deliver
             (comp2\<lparr>EqFilterComponent_frequencySlider :=
                setValue
                  (ObservableProperty_value (frequencySliderValue (EqFilterComponent_viewModel comp2)))
                  dontSendNotification (EqFilterComponent_frequencySlider comp2)\<rparr>) e of
        (comp3, e') \<Rightarrow>
          (let comp4 = comp3\<lparr>EqFilterComponent_frequencySlider :=
                         (EqFilterComponent_frequencySlider comp3)
                           \<lparr>Slider_onValueChange := Some ForwardValueToViewModel\<rparr>\<rparr> in
           case observe EqFilterComponent_observer
                  (frequencySliderValue (EqFilterComponent_viewModel comp4)) of
             (c, p) \<Rightarrow>
               (let comp5 = comp4\<lparr>EqFilterComponent_viewModel :=
                              (EqFilterComponent_viewModel comp4)
                                \<lparr>EqFilterViewModel_frequencySliderValue := p\<rparr>,
                            EqFilterComponent_connections :=
                              EqFilterComponent_connections comp4 @ [c]\<rparr>
                in (comp5\<lparr>EqFilterComponent_frequencySlider :=
                      addAndMakeVisible (EqFilterComponent_frequencySlider comp5)\<rparr>, e'))))"

text \<open>
  The view-model's slider value changes: its observers run on the component's slider,
  and the toolkit then delivers what they left pending.
\<close>

definition EqFilterComponent_sliderValuePublished ::
  "double \<Rightarrow> 'e EqFilterComponent \<Rightarrow> 'e \<Rightarrow> 'e EqFilterComponent \<times> 'e" where
  "EqFilterComponent_sliderValuePublished v self e =
     (case setValueForced v (frequencySliderValue (EqFilterComponent_viewModel self))
             (EqFilterComponent_frequencySlider self) of
        (p, s) \<Rightarrow>
          EqFilterComponent_deliver
            (self\<lparr>EqFilterComponent_viewModel :=
                    (EqFilterComponent_viewModel self)\<lparr>EqFilterViewModel_frequencySliderValue := p\<rparr>,
                  EqFilterComponent_frequencySlider := s\<rparr>) e)"

text \<open>
  The user moves the slider: the toolkit sets the value with a notification and
  delivers it.
\<close>

definition EqFilterComponent_userMovesSlider ::
  "double \<Rightarrow> 'e EqFilterComponent \<Rightarrow> 'e \<Rightarrow> 'e EqFilterComponent \<times> 'e" where
  "EqFilterComponent_userMovesSlider v self e =
     EqFilterComponent_deliver
       (self\<lparr>EqFilterComponent_frequencySlider :=
          setValue v sendNotificationSync (EqFilterComponent_frequencySlider self)\<rparr>) e"


text \<open>A run of changes of the view-model's slider value, each published to the component.\<close>

fun EqFilterComponent_sliderValuesPublished ::
  "double list \<Rightarrow> 'e EqFilterComponent \<Rightarrow> 'e \<Rightarrow> 'e EqFilterComponent \<times> 'e" where
  "EqFilterComponent_sliderValuesPublished [] self e = (self, e)"
| "EqFilterComponent_sliderValuesPublished (v # vs) self e =
     (case EqFilterComponent_sliderValuePublished v self e of
        (self', e') \<Rightarrow> EqFilterComponent_sliderValuesPublished vs self' e')"

text \<open>
  What the constructor establishes and every published slider value keeps: the
  component's closure is the one observer of the slider value, the slider forwards to
  the view-model, nothing is pending, and the slider shows \<open>v\<close>.
\<close>

definition EqFilterComponent_bound ::
  "(double \<Rightarrow> 'e \<Rightarrow> 'e) \<Rightarrow> double \<Rightarrow> 'e EqFilterComponent \<Rightarrow> bool" where
  "EqFilterComponent_bound callback v self =
     (map snd (observers (frequencySliderValue (EqFilterComponent_viewModel self)))
        = [EqFilterComponent_observer]
      \<and> EqFilterViewModel_cutoffFrequencyChanged (EqFilterComponent_viewModel self) = callback
      \<and> Slider_onValueChange (EqFilterComponent_frequencySlider self) = Some ForwardValueToViewModel
      \<and> Slider_changePending (EqFilterComponent_frequencySlider self) = False
      \<and> Slider_value (EqFilterComponent_frequencySlider self) = v)"


section \<open>The model wired to the plot\<close>

text \<open>
  \<^verbatim>\<open>wiring()\<close>, lines 156 and 163--164: the model, and the plot component over a
  view-model constructed on the model's magnitude response. The EqFilterComponent of
  lines 158--161 reaches the model only through the callback it is given.
\<close>

definition wiring_filter_plotComponent :: "PlotWorld EqFilter \<times> PlotComponent" where
  "wiring_filter_plotComponent =
     (let eqFilter = EqFilter_ctor in
      case MagnitudeResponsePlotViewModel_ctor (magnitudeResponse eqFilter) of
        (plotViewModel, source) \<Rightarrow>
          (eqFilter\<lparr>EqFilter_magnitudeResponse := source\<rparr>, PlotComponent_ctor plotViewModel))"


section \<open>Callbacks for concrete runs\<close>

text \<open>A callback that records the arguments it is called with, in order.\<close>

definition recordCall :: "'a \<Rightarrow> 'a list \<Rightarrow> 'a list" where
  "recordCall v calls = calls @ [v]"



section \<open>Properties of the observable property\<close>

lemma observers_setValueForced [simp]:
  "observers (fst (setValueForced v p w)) = observers p"
  by (simp add: setValueForced_def Let_def)

lemma currentValue_setValueForced [simp]:
  "currentValue (fst (setValueForced v p w)) = v"
  by (simp add: setValueForced_def Let_def)


section \<open>Properties of EqFilterViewModel\<close>

text \<open>
  C7: a freshly constructed EqFilterViewModel's frequencySliderValue observable holds
  100.0, whatever callback was injected.
\<close>

theorem EqFilterViewModel_initial_slider_value:
  "ObservableProperty_value (frequencySliderValue (EqFilterViewModel_ctor callback)) = 100"
  by (simp add: ObservableProperty_value_def frequencySliderValue_def
      EqFilterViewModel_ctor_def ObservableProperty_ctor_def)

text \<open>
  C5: onCutoffFrequencyChanged(v) applies the injected callback once to v, and returns
  the view-model as it was: its frequencySliderValue observable (value and observers)
  and its callback are unchanged. With a callback that records its calls, the record
  grows by exactly the one entry v.
\<close>

theorem EqFilterViewModel_onCutoffFrequencyChanged_frame:
  "snd (EqFilterViewModel_onCutoffFrequencyChanged v vm e)
     = EqFilterViewModel_cutoffFrequencyChanged vm v e
   \<and> fst (EqFilterViewModel_onCutoffFrequencyChanged v vm e) = vm
   \<and> frequencySliderValue (fst (EqFilterViewModel_onCutoffFrequencyChanged v vm e))
     = frequencySliderValue vm
   \<and> snd (EqFilterViewModel_onCutoffFrequencyChanged v (EqFilterViewModel_ctor recordCall) calls)
     = calls @ [v]"
  by (simp add: EqFilterViewModel_onCutoffFrequencyChanged_def EqFilterViewModel_ctor_def
      recordCall_def)

text \<open>
  C6: setting the view-model's frequencySliderValue observable to v and reading it back
  with value() yields v, whatever the observers do with the notification.
\<close>

theorem frequencySliderValue_set_then_value:
  "ObservableProperty_value
     (fst (setValueForced v (frequencySliderValue (vm :: ('s, 'e) EqFilterViewModel)) w)) = v"
  by (simp add: ObservableProperty_value_def)


section \<open>Properties of EqFilter\<close>

text \<open>
  C4: onCutoffFrequencyChanged(f) stores f as the cutoff frequency, computes the
  magnitude response on the model that already holds f, makes it the value of the
  magnitude-response observable, and calls every observer of that observable, in
  subscription order, with the computed response; the subscriptions stay as they were.
\<close>

theorem EqFilter_onCutoffFrequencyChanged_publishes:
  "EqFilter_cutoffFrequency (fst (EqFilter_onCutoffFrequencyChanged f eqFilter w)) = f
   \<and> ObservableProperty_value (magnitudeResponse (fst (EqFilter_onCutoffFrequencyChanged f eqFilter w)))
     = calculateMagnitudeResponse (eqFilter\<lparr>EqFilter_cutoffFrequency := f\<rparr>)
   \<and> snd (EqFilter_onCutoffFrequencyChanged f eqFilter w)
     = fold (\<lambda>(c, callback).
          callback (calculateMagnitudeResponse (eqFilter\<lparr>EqFilter_cutoffFrequency := f\<rparr>)))
        (observers (magnitudeResponse eqFilter)) w
   \<and> observers (magnitudeResponse (fst (EqFilter_onCutoffFrequencyChanged f eqFilter w)))
     = observers (magnitudeResponse eqFilter)"
  by (simp add: EqFilter_onCutoffFrequencyChanged_def magnitudeResponse_def
      ObservableProperty_value_def setValueForced_def notifyObservers_def Let_def)


section \<open>Properties of MagnitudeResponsePlotViewModel\<close>

lemma calculateMagnitudeResponsePlot_plotOf:
  "calculateMagnitudeResponsePlot vm
     = plotOf (MagnitudeResponsePlotViewModel_magnitudeResponse vm)
         (MagnitudeResponsePlotViewModel_plotBounds vm)"
  by (simp add: calculateMagnitudeResponsePlot_def plotOf_def)

lemma updatePlot_value:
  "ObservableProperty_value (plot (fst (updatePlot vm view))) = calculateMagnitudeResponsePlot vm"
  by (simp add: updatePlot_def plot_def ObservableProperty_value_def setValueForced_def
      Let_def)

text \<open>
  C1: onPlotBoundsChanged(rect) stores rect as the cached bounds, keeps the cached
  magnitude response, and publishes as the plot the function plotOf of the cached
  response and rect, whatever else the view-model and the view hold; every observer of
  the plot is called with that plot.
\<close>

theorem onPlotBoundsChanged_plot_is_function_of_response_and_bounds:
  "MagnitudeResponsePlotViewModel_plotBounds (fst (onPlotBoundsChanged rect vm view)) = rect
   \<and> MagnitudeResponsePlotViewModel_magnitudeResponse (fst (onPlotBoundsChanged rect vm view))
     = MagnitudeResponsePlotViewModel_magnitudeResponse vm
   \<and> ObservableProperty_value (plot (fst (onPlotBoundsChanged rect vm view)))
     = plotOf (MagnitudeResponsePlotViewModel_magnitudeResponse vm) rect
   \<and> snd (onPlotBoundsChanged rect vm view)
     = fold (\<lambda>(c, callback).
          callback (plotOf (MagnitudeResponsePlotViewModel_magnitudeResponse vm) rect))
        (observers (plot vm)) view"
  by (simp add: onPlotBoundsChanged_def updatePlot_def plot_def ObservableProperty_value_def
      setValueForced_def notifyObservers_def Let_def calculateMagnitudeResponsePlot_plotOf)

text \<open>
  C3: the unit test. The testee is a view-model constructed over an observable that
  holds a response with no data points; before the call its bounds are the default
  rectangle. The call onPlotBoundsChanged({0, 0, 100, 100}) stores that rectangle,
  keeps the empty response cached, and makes the plot value the plot computation of the
  empty response and that rectangle, which with the stub of the source is the default
  path the test's \<^verbatim>\<open>juce::Path{}\<close> equals. The call publishes: an observer subscribed
  to the testee's plot that records its calls records exactly one more, that plot. The
  same holds for every response the observable holds, every rectangle and every
  observer of the plot.
\<close>

theorem test_RecalculatesPlotOnBoundsChanged:
  "ObservableProperty_value
     (plot (fst (onPlotBoundsChanged \<lparr>rect_x = 0, rect_y = 0, rect_w = 100, rect_h = 100\<rparr>
        (fst (MagnitudeResponsePlotViewModel_ctor (ObservableProperty_ctor []))) view)))
     = plotOf [] \<lparr>rect_x = 0, rect_y = 0, rect_w = 100, rect_h = 100\<rparr>
   \<and> ObservableProperty_value
     (plot (fst (onPlotBoundsChanged \<lparr>rect_x = 0, rect_y = 0, rect_w = 100, rect_h = 100\<rparr>
        (fst (MagnitudeResponsePlotViewModel_ctor (ObservableProperty_ctor []))) view)))
     = Path_default
   \<and> MagnitudeResponsePlotViewModel_plotBounds
       (fst (MagnitudeResponsePlotViewModel_ctor (ObservableProperty_ctor [])))
     = \<lparr>rect_x = 0, rect_y = 0, rect_w = 0, rect_h = 0\<rparr>
   \<and> MagnitudeResponsePlotViewModel_plotBounds
       (fst (onPlotBoundsChanged \<lparr>rect_x = 0, rect_y = 0, rect_w = 100, rect_h = 100\<rparr>
          (fst (MagnitudeResponsePlotViewModel_ctor (ObservableProperty_ctor []))) view))
     = \<lparr>rect_x = 0, rect_y = 0, rect_w = 100, rect_h = 100\<rparr>
   \<and> MagnitudeResponsePlotViewModel_magnitudeResponse
       (fst (onPlotBoundsChanged \<lparr>rect_x = 0, rect_y = 0, rect_w = 100, rect_h = 100\<rparr>
          (fst (MagnitudeResponsePlotViewModel_ctor (ObservableProperty_ctor []))) view))
     = []
   \<and> snd (onPlotBoundsChanged \<lparr>rect_x = 0, rect_y = 0, rect_w = 100, rect_h = 100\<rparr>
        ((fst (MagnitudeResponsePlotViewModel_ctor (ObservableProperty_ctor [])))
           \<lparr>MagnitudeResponsePlotViewModel_plot :=
              snd (observe recordCall
                (plot (fst (MagnitudeResponsePlotViewModel_ctor (ObservableProperty_ctor [])))))\<rparr>)
        calls)
     = calls @ [plotOf [] \<lparr>rect_x = 0, rect_y = 0, rect_w = 100, rect_h = 100\<rparr>]
   \<and> ObservableProperty_value
     (plot (fst (onPlotBoundsChanged rect
        (fst (MagnitudeResponsePlotViewModel_ctor (ObservableProperty_ctor response))) view)))
     = plotOf response rect
   \<and> MagnitudeResponsePlotViewModel_plotBounds
       (fst (onPlotBoundsChanged rect
          (fst (MagnitudeResponsePlotViewModel_ctor (ObservableProperty_ctor response))) view))
     = rect
   \<and> snd (onPlotBoundsChanged rect
        ((fst (MagnitudeResponsePlotViewModel_ctor (ObservableProperty_ctor response)))
           \<lparr>MagnitudeResponsePlotViewModel_plot :=
              snd (observe callback
                (plot (fst (MagnitudeResponsePlotViewModel_ctor
                   (ObservableProperty_ctor response)))))\<rparr>)
        w)
     = callback (plotOf response rect) w"
proof -
  have ctor: "fst (MagnitudeResponsePlotViewModel_ctor (ObservableProperty_ctor r))
     = \<lparr>MagnitudeResponsePlotViewModel_plot = ObservableProperty_ctor Path_default,
        MagnitudeResponsePlotViewModel_plotBounds = Rectangle_default,
        MagnitudeResponsePlotViewModel_magnitudeResponse = r,
        MagnitudeResponsePlotViewModel_connections = [ScopedConnection 0]\<rparr>" for r
    by (simp add: MagnitudeResponsePlotViewModel_ctor_def observe_def
        ObservableProperty_value_def ObservableProperty_ctor_def Let_def)
  have val: "ObservableProperty_value (plot (fst (onPlotBoundsChanged b vm v)))
     = plotOf (MagnitudeResponsePlotViewModel_magnitudeResponse vm) b" for b vm v
    by (simp add: onPlotBoundsChanged_def updatePlot_def plot_def ObservableProperty_value_def
        setValueForced_def Let_def calculateMagnitudeResponsePlot_plotOf)
  have bounds: "MagnitudeResponsePlotViewModel_plotBounds (fst (onPlotBoundsChanged b vm v)) = b"
    and cache: "MagnitudeResponsePlotViewModel_magnitudeResponse (fst (onPlotBoundsChanged b vm v))
     = MagnitudeResponsePlotViewModel_magnitudeResponse vm" for b vm v
    by (simp_all add: onPlotBoundsChanged_def updatePlot_def setValueForced_def Let_def)
  have pub: "snd (onPlotBoundsChanged b
        ((fst (MagnitudeResponsePlotViewModel_ctor (ObservableProperty_ctor r)))
           \<lparr>MagnitudeResponsePlotViewModel_plot :=
              snd (observe f
                (plot (fst (MagnitudeResponsePlotViewModel_ctor (ObservableProperty_ctor r)))))\<rparr>)
        v)
     = f (plotOf r b) v" for b r f v
    unfolding ctor
    by (simp add: onPlotBoundsChanged_def updatePlot_def plot_def setValueForced_def
        notifyObservers_def observe_def ObservableProperty_ctor_def Let_def
        calculateMagnitudeResponsePlot_plotOf)
  have stub: "plotOf [] \<lparr>rect_x = 0, rect_y = 0, rect_w = 100, rect_h = 100\<rparr> = Path_default"
    by (simp add: plotOf_def calculateMagnitudeResponsePlot_def)
  have before: "MagnitudeResponsePlotViewModel_plotBounds
       (fst (MagnitudeResponsePlotViewModel_ctor (ObservableProperty_ctor [])))
     = \<lparr>rect_x = 0, rect_y = 0, rect_w = 0, rect_h = 0\<rparr>"
    by (simp add: ctor Rectangle_default_def)
  show ?thesis
    by (simp only: val bounds cache pub before recordCall_def)
       (simp add: ctor stub)
qed

text \<open>
  C9: the constructor copies the source's current response into the cache and
  subscribes to the source; it neither recomputes nor publishes a plot. Right after
  construction the plot is the default path, the plot observable has no observers and
  the bounds are the default rectangle; the source has its value and its earlier
  observers, and the new observer last. A later emission r of the source runs the
  view-model's closure, which recomputes the plot, after the earlier observers; a later
  bounds change recomputes it too.
\<close>

theorem MagnitudeResponsePlotViewModel_ctor_publishes_no_plot:
  "ObservableProperty_value (plot (fst (MagnitudeResponsePlotViewModel_ctor source)))
     = Path_default
   \<and> observers (plot (fst (MagnitudeResponsePlotViewModel_ctor source))) = []
   \<and> MagnitudeResponsePlotViewModel_magnitudeResponse
       (fst (MagnitudeResponsePlotViewModel_ctor source)) = ObservableProperty_value source
   \<and> MagnitudeResponsePlotViewModel_plotBounds
       (fst (MagnitudeResponsePlotViewModel_ctor source)) = Rectangle_default
   \<and> ObservableProperty_value (snd (MagnitudeResponsePlotViewModel_ctor source))
     = ObservableProperty_value source
   \<and> map snd (observers (snd (MagnitudeResponsePlotViewModel_ctor source)))
     = map snd (observers source) @ [MagnitudeResponsePlotViewModel_observer]
   \<and> snd (setValueForced r (snd (MagnitudeResponsePlotViewModel_ctor source)) w)
     = MagnitudeResponsePlotViewModel_observer r (snd (setValueForced r source w))
   \<and> ObservableProperty_value
       (plot (fst (onPlotBoundsChanged rect (fst (MagnitudeResponsePlotViewModel_ctor source)) view)))
     = plotOf (ObservableProperty_value source) rect"
  by (simp add: MagnitudeResponsePlotViewModel_ctor_def observe_def plot_def
      ObservableProperty_value_def ObservableProperty_ctor_def Let_def setValueForced_def
      notifyObservers_def onPlotBoundsChanged_def updatePlot_def
      calculateMagnitudeResponsePlot_plotOf)


section \<open>Release of subscriptions\<close>

lemma setValuesForced_observers [simp]:
  "observers (fst (setValuesForced vs p w)) = observers p"
proof (induction vs arbitrary: p w)
  case Nil
  show ?case by simp
next
  case (Cons v vs)
  have "observers (fst (setValuesForced vs (fst (setValueForced v p w)) (snd (setValueForced v p w))))
          = observers (fst (setValueForced v p w))"
    by (rule Cons.IH)
  then show ?case by (simp add: split_beta)
qed







lemma connectionsFresh_observe:
  "connectionsFresh p \<Longrightarrow> connectionsFresh (snd (observe callback p))"
  by (auto simp: connectionsFresh_def observe_def list_all_iff)

lemma connectionsFresh_setValueForced:
  "connectionsFresh p \<Longrightarrow> connectionsFresh (fst (setValueForced v p w))"
  by (simp add: connectionsFresh_def setValueForced_def Let_def)

lemma connectionsFresh_dtor:
  "connectionsFresh p \<Longrightarrow> connectionsFresh (ScopedConnection_dtor c p)"
  by (auto simp: connectionsFresh_def ScopedConnection_dtor_def list_all_iff)

lemma updatePlot_connections [simp]:
  "MagnitudeResponsePlotViewModel_connections (fst (updatePlot vm view))
     = MagnitudeResponsePlotViewModel_connections vm"
  by (simp add: updatePlot_def setValueForced_def Let_def)

lemma observer_connections [simp]:
  "MagnitudeResponsePlotViewModel_connections
     (fst (MagnitudeResponsePlotViewModel_observer r (vm, view)))
     = MagnitudeResponsePlotViewModel_connections vm"
  by (simp add: MagnitudeResponsePlotViewModel_observer_def)






section \<open>The model drives the plot\<close>

lemma updatePlot_observers [simp]:
  "observers (plot (fst (updatePlot vm view))) = observers (plot vm)"
  by (simp add: updatePlot_def plot_def setValueForced_def Let_def)

lemma updatePlot_repaints:
  assumes "map snd (observers (plot vm)) = [PlotComponent_observer]"
  shows "Component_repaintRequests (snd (updatePlot vm base))
     = Suc (Component_repaintRequests base)"
proof -
  from assms obtain c where "observers (plot vm) = [(c, PlotComponent_observer)]"
    by (cases "observers (plot vm)") auto
  then show ?thesis
    by (simp add: updatePlot_def plot_def setValueForced_def Let_def notifyObservers_def
        PlotComponent_observer_def repaint_def)
qed

lemma onCutoffFrequencyChanged_sole_observer:
  assumes "map snd (observers (magnitudeResponse eqFilter))
     = [MagnitudeResponsePlotViewModel_observer]"
  shows "snd (EqFilter_onCutoffFrequencyChanged f eqFilter (vm, view))
     = updatePlot (vm\<lparr>MagnitudeResponsePlotViewModel_magnitudeResponse :=
                       calculateMagnitudeResponse (eqFilter\<lparr>EqFilter_cutoffFrequency := f\<rparr>)\<rparr>)
         view"
proof -
  from assms obtain c where
    "observers (magnitudeResponse eqFilter) = [(c, MagnitudeResponsePlotViewModel_observer)]"
    by (cases "observers (magnitudeResponse eqFilter)") auto
  then show ?thesis
    by (simp add: EqFilter_onCutoffFrequencyChanged_def magnitudeResponse_def setValueForced_def
        Let_def notifyObservers_def MagnitudeResponsePlotViewModel_observer_def
        calculateMagnitudeResponse_def)
qed

lemma onCutoffFrequencyChanged_observers [simp]:
  "observers (magnitudeResponse (fst (EqFilter_onCutoffFrequencyChanged f eqFilter w)))
     = observers (magnitudeResponse eqFilter)"
  by (simp add: EqFilter_onCutoffFrequencyChanged_def magnitudeResponse_def setValueForced_def
      Let_def)

lemma onCutoffFrequencyChanges_repaints:
  "map snd (observers (magnitudeResponse eqFilter)) = [MagnitudeResponsePlotViewModel_observer] \<Longrightarrow>
   map snd (observers (plot vm)) = [PlotComponent_observer] \<Longrightarrow>
   Component_repaintRequests (snd (snd (onCutoffFrequencyChanges fs eqFilter (vm, base))))
     = Component_repaintRequests base + length fs"
proof (induction fs arbitrary: eqFilter vm base)
  case Nil
  show ?case by simp
next
  case (Cons f fs)
  let ?r = "EqFilter_onCutoffFrequencyChanged f eqFilter (vm, base)"
  let ?vm = "vm\<lparr>MagnitudeResponsePlotViewModel_magnitudeResponse :=
                   calculateMagnitudeResponse (eqFilter\<lparr>EqFilter_cutoffFrequency := f\<rparr>)\<rparr>"
  have w: "snd ?r = updatePlot ?vm base"
    using Cons.prems(1) by (rule onCutoffFrequencyChanged_sole_observer)
  have obs: "map snd (observers (plot ?vm)) = [PlotComponent_observer]"
    using Cons.prems(2) by (simp add: plot_def)
  have f: "map snd (observers (magnitudeResponse (fst ?r)))
     = [MagnitudeResponsePlotViewModel_observer]"
    using Cons.prems(1) by simp
  have p: "map snd (observers (plot (fst (snd ?r)))) = [PlotComponent_observer]"
    using obs by (simp add: w)
  have "Component_repaintRequests
          (snd (snd (onCutoffFrequencyChanges fs (fst ?r) (fst (snd ?r), snd (snd ?r)))))
     = Component_repaintRequests (snd (snd ?r)) + length fs"
    using f p by (rule Cons.IH)
  moreover have "Component_repaintRequests (snd (snd ?r)) = Suc (Component_repaintRequests base)"
    using obs by (simp add: w updatePlot_repaints)
  ultimately show ?case by (simp add: split_beta)
qed

text \<open>
  C2: when the view-model's subscription is the one subscription of the model's
  magnitude-response observable, a call of onCutoffFrequencyChanged(f) acts on the
  view-model and its view as one call of updatePlot on the view-model holding the new
  response. When the plot component's closure is the one observer of the plot, the
  call raises the component's count of repaint requests by exactly one, and a run of
  calls raises it by the number of calls.
\<close>

theorem cutoff_change_recomputes_plot_exactly_once:
  assumes "map snd (observers (magnitudeResponse eqFilter))
     = [MagnitudeResponsePlotViewModel_observer]"
    and "map snd (observers (plot vm)) = [PlotComponent_observer]"
  shows "snd (EqFilter_onCutoffFrequencyChanged f eqFilter (vm, base))
       = updatePlot (vm\<lparr>MagnitudeResponsePlotViewModel_magnitudeResponse :=
                         calculateMagnitudeResponse (eqFilter\<lparr>EqFilter_cutoffFrequency := f\<rparr>)\<rparr>)
           base
     \<and> Component_repaintRequests (snd (snd (EqFilter_onCutoffFrequencyChanged f eqFilter (vm, base))))
       = Suc (Component_repaintRequests base)
     \<and> Component_repaintRequests (snd (snd (onCutoffFrequencyChanges fs eqFilter (vm, base))))
       = Component_repaintRequests base + length fs"
proof -
  let ?vm = "vm\<lparr>MagnitudeResponsePlotViewModel_magnitudeResponse :=
                   calculateMagnitudeResponse (eqFilter\<lparr>EqFilter_cutoffFrequency := f\<rparr>)\<rparr>"
  have one: "snd (EqFilter_onCutoffFrequencyChanged f eqFilter (vm, base)) = updatePlot ?vm base"
    using assms(1) by (rule onCutoffFrequencyChanged_sole_observer)
  have "map snd (observers (plot ?vm)) = [PlotComponent_observer]"
    using assms(2) by (simp add: plot_def)
  then have "Component_repaintRequests (snd (updatePlot ?vm base))
     = Suc (Component_repaintRequests base)"
    by (rule updatePlot_repaints)
  with one onCutoffFrequencyChanges_repaints [OF assms, of fs base] show ?thesis
    by simp
qed

text \<open>
  On the model and plot component that \<^verbatim>\<open>wiring()\<close> builds, both subscriptions are in
  place, and two cutoff changes request two repaints.
\<close>

theorem cutoff_change_recomputes_plot_exactly_once_witness:
  "map snd (observers (magnitudeResponse (fst wiring_filter_plotComponent)))
     = [MagnitudeResponsePlotViewModel_observer]
   \<and> map snd (observers (plot (PlotComponent_plotViewModel (snd wiring_filter_plotComponent))))
     = [PlotComponent_observer]
   \<and> Component_repaintRequests (PlotComponent_base (snd wiring_filter_plotComponent)) = 0
   \<and> Component_repaintRequests
       (snd (snd (onCutoffFrequencyChanges [440, 1000] (fst wiring_filter_plotComponent)
          (PlotComponent_world (snd wiring_filter_plotComponent))))) = 2"
proof -
  have a: "map snd (observers (magnitudeResponse (fst wiring_filter_plotComponent)))
     = [MagnitudeResponsePlotViewModel_observer]"
    by (simp add: wiring_filter_plotComponent_def EqFilter_ctor_def magnitudeResponse_def
        MagnitudeResponsePlotViewModel_ctor_def observe_def ObservableProperty_ctor_def Let_def)
  have b: "map snd
      (observers (plot (PlotComponent_plotViewModel (snd wiring_filter_plotComponent))))
     = [PlotComponent_observer]"
    by (simp add: wiring_filter_plotComponent_def EqFilter_ctor_def magnitudeResponse_def
        MagnitudeResponsePlotViewModel_ctor_def PlotComponent_ctor_def plot_def observe_def
        ObservableProperty_ctor_def Let_def)
  have c: "Component_repaintRequests (PlotComponent_base (snd wiring_filter_plotComponent)) = 0"
    by (simp add: wiring_filter_plotComponent_def EqFilter_ctor_def magnitudeResponse_def
        MagnitudeResponsePlotViewModel_ctor_def PlotComponent_ctor_def plot_def observe_def
        ObservableProperty_ctor_def Component_ctor_def Let_def)
  from cutoff_change_recomputes_plot_exactly_once [OF a b, of 440
      "PlotComponent_base (snd wiring_filter_plotComponent)" "[440, 1000]"] a b c
  show ?thesis by (simp add: PlotComponent_world_def)
qed


section \<open>Properties of EqFilterComponent\<close>

lemma EqFilterComponent_ctor_bound:
  "EqFilterComponent_bound callback 100
     (fst (EqFilterComponent_ctor (EqFilterViewModel_ctor callback) e))"
  by (simp add: EqFilterComponent_bound_def EqFilterComponent_ctor_def EqFilterViewModel_ctor_def
      EqFilterComponent_deliver_def Slider_ctor_def setSliderStyle_def setRange_def setValue_def
      addAndMakeVisible_def observe_def frequencySliderValue_def ObservableProperty_value_def
      ObservableProperty_ctor_def Let_def)

lemma EqFilterComponent_ctor_frame:
  "snd (EqFilterComponent_ctor viewModel e) = e"
  by (simp add: EqFilterComponent_ctor_def EqFilterComponent_deliver_def Slider_ctor_def
      setSliderStyle_def setRange_def setValue_def addAndMakeVisible_def observe_def
      frequencySliderValue_def ObservableProperty_value_def Let_def split_beta)

lemma sliderValuePublished_bound:
  assumes "EqFilterComponent_bound callback u self"
  shows "EqFilterComponent_bound callback v (fst (EqFilterComponent_sliderValuePublished v self e))
       \<and> snd (EqFilterComponent_sliderValuePublished v self e) = e"
proof -
  from assms obtain c where
    o: "observers (frequencySliderValue (EqFilterComponent_viewModel self))
          = [(c, EqFilterComponent_observer)]"
    unfolding EqFilterComponent_bound_def
    by (cases "observers (frequencySliderValue (EqFilterComponent_viewModel self))") auto
  from assms o show ?thesis
    unfolding EqFilterComponent_bound_def
    by (simp add: EqFilterComponent_sliderValuePublished_def setValueForced_def Let_def
        notifyObservers_def EqFilterComponent_observer_def setValue_def
        EqFilterComponent_deliver_def frequencySliderValue_def)
qed

lemma sliderValuesPublished_bound:
  "EqFilterComponent_bound callback u self \<Longrightarrow>
     EqFilterComponent_bound callback (last (u # vs))
       (fst (EqFilterComponent_sliderValuesPublished vs self e))
     \<and> snd (EqFilterComponent_sliderValuesPublished vs self e) = e"
proof (induction vs arbitrary: u self)
  case Nil
  then show ?case by simp
next
  case (Cons v vs)
  let ?r = "EqFilterComponent_sliderValuePublished v self e"
  from sliderValuePublished_bound [OF Cons.prems, of v e]
  have b: "EqFilterComponent_bound callback v (fst ?r)" and e: "snd ?r = e"
    by simp_all
  from Cons.IH [OF b] e show ?case by (simp add: split_beta)
qed

lemma userMovesSlider_bound:
  "EqFilterComponent_bound callback u self \<Longrightarrow>
     snd (EqFilterComponent_userMovesSlider v self e) = (if v = u then e else callback v e)"
  unfolding EqFilterComponent_bound_def
  by (simp add: EqFilterComponent_userMovesSlider_def EqFilterComponent_deliver_def setValue_def
      EqFilterComponent_onValueChange_def EqFilterViewModel_onCutoffFrequencyChanged_def
      getValue_def Let_def)

text \<open>
  C10: the constructor of EqFilterComponent leaves the state the injected callback acts
  on as it was, for every view-model and so for every callback, and leaves no change
  message pending on the slider. On a component built over a fresh view-model, any run
  of values published by the slider-value observable leaves that state as it was too.
  Only a user moving the slider reaches the callback: a move to a value v other than
  the one the slider shows calls it once with v.
\<close>

theorem EqFilterComponent_ctor_never_invokes_callback:
  "snd (EqFilterComponent_ctor viewModel e) = e
   \<and> Slider_changePending (EqFilterComponent_frequencySlider
        (fst (EqFilterComponent_ctor (EqFilterViewModel_ctor callback) e))) = False
   \<and> snd (EqFilterComponent_sliderValuesPublished vs
        (fst (EqFilterComponent_ctor (EqFilterViewModel_ctor callback) e)) e) = e
   \<and> snd (EqFilterComponent_userMovesSlider v
        (fst (EqFilterComponent_sliderValuesPublished vs
           (fst (EqFilterComponent_ctor (EqFilterViewModel_ctor callback) e)) e)) e)
     = (if v = getValue (EqFilterComponent_frequencySlider
                  (fst (EqFilterComponent_sliderValuesPublished vs
                     (fst (EqFilterComponent_ctor (EqFilterViewModel_ctor callback) e)) e)))
        then e else callback v e)"
proof -
  let ?c = "fst (EqFilterComponent_ctor (EqFilterViewModel_ctor callback) e)"
  have b: "EqFilterComponent_bound callback 100 ?c"
    by (rule EqFilterComponent_ctor_bound)
  have p: "Slider_changePending (EqFilterComponent_frequencySlider ?c) = False"
    using b by (simp add: EqFilterComponent_bound_def)
  from sliderValuesPublished_bound [OF b, of vs e]
  have b': "EqFilterComponent_bound callback (last (100 # vs))
       (fst (EqFilterComponent_sliderValuesPublished vs ?c e))"
    and e': "snd (EqFilterComponent_sliderValuesPublished vs ?c e) = e"
    by simp_all
  have g: "getValue (EqFilterComponent_frequencySlider
       (fst (EqFilterComponent_sliderValuesPublished vs ?c e))) = last (100 # vs)"
    using b' by (simp add: EqFilterComponent_bound_def getValue_def)
  from userMovesSlider_bound [OF b', of v e] EqFilterComponent_ctor_frame [of viewModel e] p e' g
  show ?thesis by simp
qed

end
